theory Spec2Isabelle
  imports Main "HOL-Library.Word"
begin

unbundle bit_operations_syntax

section \<open>Transwarp v1 wire format: \<^verbatim>\<open>router/xlink_transwarp/message.go\<close>\<close>

subsection \<open>Data\<close>

type_synonym byte = "8 word"
type_synonym uint8 = "8 word"
type_synonym uint16 = "16 word"
type_synonym int32 = "32 word"

text \<open>
  A Go byte slice has a length and a capacity. A slice expression \<open>s[lo:hi]\<close> on a slice
  is in range when \<open>0 \<le> lo \<le> hi \<le> cap(s)\<close>, so it can reach the bytes of the backing
  array that lie behind \<open>len(s)\<close>. \<open>elems\<close> are the \<open>len(s)\<close> visible bytes, \<open>spare\<close> the
  bytes between \<open>len(s)\<close> and \<open>cap(s)\<close>. (\<open>readMessage\<close> decodes \<open>data[:n]\<close> of a buffer of
  \<open>udp.MaxPacketSize\<close> bytes, where \<open>spare\<close> is not empty.)
\<close>

record slice =
  elems :: "byte list"
  spare :: "byte list"

definition cap :: "slice \<Rightarrow> nat" where
  "cap s = length (elems s) + length (spare s)"

text \<open>\<open>s[lo:hi]\<close> for \<open>lo \<le> hi \<le> cap(s)\<close>; the callers check the range.\<close>

definition subslice :: "slice \<Rightarrow> nat \<Rightarrow> nat \<Rightarrow> byte list" where
  "subslice s lo hi = take (hi - lo) (drop lo (elems s @ spare s))"

definition magicV1 :: "byte list" where
  "magicV1 = [0x01, 0x02, 0x02, 0x00]"

definition messageSectionLength :: nat where
  "messageSectionLength = 15"

definition Hello :: uint8 where "Hello = 0"
definition Ping :: uint8 where "Ping = 1"
definition Payload :: uint8 where "Payload = 2"
definition Acknowledgement :: uint8 where "Acknowledgement = 3"

definition mss :: nat where
  "mss = 1472"

definition noReplyFor :: int32 where
  "noReplyFor = - 1"

record message =
  sequence :: int32
  fragment :: uint8
  ofFragments :: uint8
  messageType :: uint8
  headersLength :: uint16
  payloadLength :: uint16
  payload :: "byte list"

text \<open>\<open>&message{}\<close>: every field at its zero value.\<close>

definition zero_message :: message where
  "zero_message = \<lparr>sequence = 0, fragment = 0, ofFragments = 0, messageType = 0,
     headersLength = 0, payloadLength = 0, payload = []\<rparr>"

type_synonym UDPAddr = string
type_synonym UDPConn = nat

datatype io_error = EOF | ErrUnexpectedEOF

datatype error =
    ShortRead
  | BadMagic
  | HeadersError
  | MessageTooLong nat
  | SequenceWrite io_error
  | HeadersLengthWrite io_error
  | PayloadLengthWrite io_error
  | ErrorReadingBuffer io_error
  | ErrorReadingSequence io_error
  | ErrorReadingHeadersLength io_error
  | ErrorReadingPayloadLength io_error
  | HelloExpectsSequence UDPAddr
  | HelloExpectsSingleFragment UDPAddr
  | ExpectedHello uint8 UDPAddr
  | NilMessage
  | PingExpectsSingleFragment UDPAddr
  | PingExpectsReplyFor UDPAddr io_error
  | UnexpectedMessageType uint8 UDPAddr

text \<open>
  What a call does: it returns a value, returns an error, or panics at run time
  (a slice bound out of range, a nil dereference).
\<close>

datatype 'a result = Ok 'a | Err error | Panic

subsection \<open>encoding/binary, little endian, and bytes.Buffer\<close>

definition putUint16 :: "uint16 \<Rightarrow> byte list" where
  "putUint16 v = [ucast v, ucast (drop_bit 8 v)]"

definition putUint32 :: "int32 \<Rightarrow> byte list" where
  "putUint32 v = [ucast v, ucast (drop_bit 8 v), ucast (drop_bit 16 v), ucast (drop_bit 24 v)]"

definition leUint16 :: "byte list \<Rightarrow> uint16" where
  "leUint16 b = ucast (b ! 0) OR push_bit 8 (ucast (b ! 1))"

definition leUint32 :: "byte list \<Rightarrow> int32" where
  "leUint32 b = ucast (b ! 0) OR push_bit 8 (ucast (b ! 1)) OR push_bit 16 (ucast (b ! 2))
     OR push_bit 24 (ucast (b ! 3))"

text \<open>
  \<open>binary.Write(buf, binary.LittleEndian, v)\<close> on a \<open>bytes.Buffer\<close> appends the bytes of
  \<open>v\<close>; the buffer's \<open>Write\<close> returns no error.
\<close>

definition binary_Write_int32 :: "byte list \<Rightarrow> int32 \<Rightarrow> io_error + byte list" where
  "binary_Write_int32 buf v = Inr (buf @ putUint32 v)"

definition binary_Write_uint16 :: "byte list \<Rightarrow> uint16 \<Rightarrow> io_error + byte list" where
  "binary_Write_uint16 buf v = Inr (buf @ putUint16 v)"

text \<open>
  \<open>binary.Read\<close> of a fixed-size value reads its size with \<open>io.ReadFull\<close>: \<open>EOF\<close> when
  nothing is left, \<open>ErrUnexpectedEOF\<close> when fewer bytes are left than the value needs.
  Bytes after the value stay unread in the buffer.
\<close>

definition io_ReadFull :: "byte list \<Rightarrow> nat \<Rightarrow> io_error + byte list" where
  "io_ReadFull buf n =
     (if n \<le> length buf then Inr (take n buf)
      else if buf = [] then Inl EOF
      else Inl ErrUnexpectedEOF)"

definition readInt32 :: "byte list \<Rightarrow> io_error + int32" where
  "readInt32 data = (case io_ReadFull data 4 of Inl e \<Rightarrow> Inl e | Inr bs \<Rightarrow> Inr (leUint32 bs))"

definition readUint16 :: "byte list \<Rightarrow> io_error + uint16" where
  "readUint16 data = (case io_ReadFull data 2 of Inl e \<Rightarrow> Inl e | Inr bs \<Rightarrow> Inr (leUint16 bs))"

text \<open>
  \<open>buffer := make([]byte, data.Len()); n, err := data.Read(buffer)\<close>: \<open>Read\<close> copies what
  fits and returns the count; on an empty buffer it returns \<open>EOF\<close> unless nothing was
  asked for.
\<close>

definition buffer_Read :: "byte list \<Rightarrow> nat \<Rightarrow> io_error + (byte list \<times> nat)" where
  "buffer_Read data k =
     (if data = [] then (if k = 0 then Inr ([], 0) else Inl EOF)
      else Inr (take k data @ replicate (k - length data) 0, min k (length data)))"

subsection \<open>encodeMessage and decodeMessage\<close>

definition encodeMessage :: "message \<Rightarrow> byte list result" where
  "encodeMessage m =
     (let data = magicV1 in
      case binary_Write_int32 data (sequence m) of
        Inl e \<Rightarrow> Err (SequenceWrite e)
      | Inr data \<Rightarrow>
     (let data = data @ [fragment m, ofFragments m, messageType m] in
      case binary_Write_uint16 data 0 of
        Inl e \<Rightarrow> Err (HeadersLengthWrite e)
      | Inr data \<Rightarrow>
     (case binary_Write_uint16 data (of_nat (length (payload m))) of
        Inl e \<Rightarrow> Err (PayloadLengthWrite e)
      | Inr data \<Rightarrow>
     (let data = data @ payload m in
      case buffer_Read data (length data) of
        Inl e \<Rightarrow> Err (ErrorReadingBuffer e)
      | Inr (buffer, n) \<Rightarrow>
          if n > mss then Err (MessageTooLong n) else Ok buffer))))"

text \<open>The loop over the magic: the first differing byte ends the decoding.\<close>

definition bad_magic :: "byte list \<Rightarrow> bool" where
  "bad_magic d = list_ex (\<lambda>i. d ! i \<noteq> magicV1 ! i) [0 ..< length magicV1]"

text \<open>
  The payload bounds \<open>15+headersLength\<close> and \<open>15+headersLength+payloadLength\<close> are
  \<open>uint16\<close> sums: they wrap at \<open>2^16\<close>. The decoded message's \<open>payloadLength\<close> is never
  assigned and keeps the zero value.
\<close>

definition decodeMessage :: "slice \<Rightarrow> message result" where
  "decodeMessage data =
     (let m = zero_message in
      if length (elems data) < messageSectionLength then Err ShortRead
      else if bad_magic (elems data) then Err BadMagic
      else case readInt32 (subslice data 4 8) of
        Inl e \<Rightarrow> Err (ErrorReadingSequence e)
      | Inr sequence' \<Rightarrow>
     (let m = m\<lparr>sequence := sequence'\<rparr>;
          m = m\<lparr>fragment := elems data ! 8\<rparr>;
          m = m\<lparr>ofFragments := elems data ! 9\<rparr>;
          m = m\<lparr>messageType := elems data ! 10\<rparr> in
      case readUint16 (subslice data 11 13) of
        Inl e \<Rightarrow> Err (ErrorReadingHeadersLength e)
      | Inr headersLength' \<Rightarrow>
          if headersLength' \<noteq> 0 then Err HeadersError
          else
     (let m = m\<lparr>headersLength := headersLength'\<rparr> in
      case readUint16 (subslice data 13 15) of
        Inl e \<Rightarrow> Err (ErrorReadingPayloadLength e)
      | Inr payloadLength' \<Rightarrow>
     (let lo = unat (15 + headersLength');
          hi = unat (15 + headersLength' + payloadLength') in
      if lo \<le> hi \<and> hi \<le> cap data
      then Ok (m\<lparr>payload := subslice data lo hi\<rparr>)
      else Panic))))"

text \<open>The message that \<open>writeHello\<close> builds from the link's identity token.\<close>

definition token_bytes :: "string \<Rightarrow> byte list" where
  "token_bytes token = map of_char token"

definition helloMessage :: "string \<Rightarrow> message" where
  "helloMessage token =
     \<lparr>sequence = - 1, fragment = 0, ofFragments = 1, messageType = Hello, headersLength = 0,
      payloadLength = of_nat (length (token_bytes token)), payload = token_bytes token\<rparr>"

subsection \<open>handleHello and handleMessage\<close>

text \<open>
  \<open>string(m.payload)\<close>: a Go string is a sequence of bytes, as a HOL \<open>string\<close> is a
  list of 8-bit characters.
\<close>

definition bytes_token :: "byte list \<Rightarrow> string" where
  "bytes_token bs = map (\<lambda>b. char_of (unat b)) bs"

text \<open>
  The handlers' callbacks act on the world; the model records each invocation with its
  arguments, in order. A handler function returns what the Go function returns
  (\<open>Ok ()\<close> for a nil error) and the invocations it made.
\<close>

datatype callback =
    HandleHello string UDPConn UDPAddr
  | HandlePing int32 int32 UDPConn UDPAddr

definition handleHello ::
  "message option \<Rightarrow> UDPConn \<Rightarrow> UDPAddr \<Rightarrow> unit result \<times> callback list" where
  "handleHello mo conn peer =
     (case mo of
        Some m \<Rightarrow>
          if messageType m = Hello then
            (if sequence m \<noteq> - 1 then (Err (HelloExpectsSequence peer), [])
             else if fragment m \<noteq> 0 \<or> ofFragments m \<noteq> 1
               then (Err (HelloExpectsSingleFragment peer), [])
             else (Ok (), [HandleHello (bytes_token (payload m)) conn peer]))
          else (Err (ExpectedHello (messageType m) peer), [])
      | None \<Rightarrow> (Err NilMessage, []))"

text \<open>\<open>handleMessage\<close> reads \<open>m.messageType\<close> at once: a nil message is a run-time panic.\<close>

definition handleMessage ::
  "message option \<Rightarrow> UDPConn \<Rightarrow> UDPAddr \<Rightarrow> unit result \<times> callback list" where
  "handleMessage mo conn peer =
     (case mo of
        None \<Rightarrow> (Panic, [])
      | Some m \<Rightarrow>
          if messageType m = Ping then
            (if fragment m \<noteq> 0 \<or> ofFragments m \<noteq> 1
               then (Err (PingExpectsSingleFragment peer), [])
             else case readInt32 (payload m) of
                 Inl err \<Rightarrow> (Err (PingExpectsReplyFor peer err), [])
               | Inr replyFor \<Rightarrow> (Ok (), [HandlePing (sequence m) replyFor conn peer]))
          else (Err (UnexpectedMessageType (messageType m) peer), []))"

section \<open>Consensus controller: \<^verbatim>\<open>controller/raft/raft.go\<close>\<close>

subsection \<open>Data and collaborators\<close>

text \<open>
  Error values of the controller. \<open>Failure\<close> is an error produced by a collaborator
  (a command's validation or encoding, the mesh, the raft library, the FSM's decoders,
  the JSON decoder); the other constructors are the errors that \<open>raft.go\<close> builds.
\<close>

datatype ctrl_error =
    Failure string
  | ApiError string
  | UnableToDecodeApiError ctrl_error
  | RemoteError "byte list"
  | UnexpectedResponseType int32
  | InvalidServerId string
  | InvalidServerAddr string string
  | FailedToBootstrapCluster ctrl_error

text \<open>
  A command: \<open>validate\<close> is \<open>None\<close> when the command does not implement
  \<open>command.Validatable\<close>, otherwise what \<open>Validate()\<close> returns (\<open>None\<close> for nil);
  \<open>encode\<close> is what \<open>Encode()\<close> returns.
\<close>

record command =
  validate :: "ctrl_error option option"
  encode :: "ctrl_error + byte list"

datatype apply_response = RespNil | RespError ctrl_error | RespValue string

record reply =
  ContentType :: int32
  Uint32Header :: "int32 \<Rightarrow> 32 word option"
  Body :: "byte list"

datatype suffrage = Voter | Nonvoter | Staging

record server =
  Suffrage :: suffrage
  ID :: string
  Address :: string

record JoinRequest =
  Addr :: string
  Id :: string
  IsVoter :: bool

text \<open>
  What the controller calls on its collaborators, in order: the command, the raft
  library, the mesh, the channel, the FSM and the controller's own \<open>HandleJoin\<close>.
\<close>

datatype ctrl_call =
    CmdValidate
  | CmdEncode
  | RaftState
  | RaftLeaderWithID
  | RaftApply "byte list"
  | RaftLastIndex
  | RaftBootstrapCluster "server list"
  | FsmDecode "byte list"
  | MeshGetOrConnectPeer string
  | ChannelSendForReply nat int32 "byte list"
  | CtrlHandleJoin JoinRequest

text \<open>
  The collaborators' answers. The message-type constants \<open>NewLogEntryType\<close>,
  \<open>SuccessResponseType\<close>, \<open>ErrorResponseType\<close>, \<open>HeaderErrorCode\<close> and
  \<open>ErrorCodeApiError\<close> and the method \<open>HandleJoin\<close> are declared in other files of the
  package: they are parameters here.
\<close>

record env =
  isLeader :: bool
  leaderAddr :: string
  raftApply :: "byte list \<Rightarrow> ctrl_error + apply_response"
  raftLastIndex :: "64 word"
  raftBootstrapCluster :: "server list \<Rightarrow> ctrl_error option"
  fsmDecode :: "byte list \<Rightarrow> ctrl_error + string"
  meshGetOrConnectPeer :: "string \<Rightarrow> ctrl_error + nat"
  channelSendForReply :: "nat \<Rightarrow> int32 \<Rightarrow> byte list \<Rightarrow> ctrl_error + reply"
  jsonUnmarshal :: "byte list \<Rightarrow> ctrl_error + string"
  HandleJoin :: "JoinRequest \<Rightarrow> ctrl_error option"
  NewLogEntryType :: int32
  SuccessResponseType :: int32
  ErrorResponseType :: int32
  HeaderErrorCode :: int32
  ErrorCodeApiError :: "32 word"

text \<open>The calls made so far, put before the calls of the rest of the function.\<close>

definition after :: "ctrl_call list \<Rightarrow> 'a \<times> ctrl_call list \<Rightarrow> 'a \<times> ctrl_call list" where
  "after cs r = (fst r, cs @ snd r)"

subsection \<open>Dispatch\<close>

definition ApplyWithTimeout ::
  "env \<Rightarrow> byte list \<Rightarrow> (ctrl_error + apply_response) \<times> ctrl_call list" where
  "ApplyWithTimeout e log = (raftApply e log, [RaftApply log])"

definition ApplyEncodedCommand :: "env \<Rightarrow> byte list \<Rightarrow> ctrl_error option \<times> ctrl_call list" where
  "ApplyEncodedCommand e encoded =
     (case ApplyWithTimeout e encoded of
        (Inl err, cs) \<Rightarrow> (Some err, cs)
      | (Inr (RespError err), cs) \<Rightarrow> (Some err, cs)
      | (Inr (RespValue v), cs) \<Rightarrow>
          (case fsmDecode e encoded of
             Inl err \<Rightarrow> (Some err, cs @ [FsmDecode encoded])
           | Inr cmd \<Rightarrow> (None, cs @ [FsmDecode encoded]))
      | (Inr RespNil, cs) \<Rightarrow> (None, cs))"

definition applyCommand :: "env \<Rightarrow> command \<Rightarrow> ctrl_error option \<times> ctrl_call list" where
  "applyCommand e cmd =
     (case encode cmd of
        Inl err \<Rightarrow> (Some err, [CmdEncode])
      | Inr encoded \<Rightarrow> after [CmdEncode] (ApplyEncodedCommand e encoded))"

text \<open>The reading of the leader's reply, at the end of \<open>Dispatch\<close>.\<close>

definition reply_error :: "env \<Rightarrow> reply \<Rightarrow> ctrl_error option" where
  "reply_error e result =
     (if ContentType result = SuccessResponseType e then None
      else if ContentType result = ErrorResponseType e then
        (case Uint32Header result (HeaderErrorCode e) of
           Some errCode \<Rightarrow>
             if errCode = ErrorCodeApiError e then
               (case jsonUnmarshal e (Body result) of
                  Inl err \<Rightarrow> Some (UnableToDecodeApiError err)
                | Inr apiErr \<Rightarrow> Some (ApiError apiErr))
             else Some (RemoteError (Body result))
         | None \<Rightarrow> Some (RemoteError (Body result)))
      else Some (UnexpectedResponseType (ContentType result)))"

text \<open>\<open>Dispatch\<close> from \<open>if self.IsLeader()\<close> on: the command has passed validation.\<close>

definition dispatch_validated :: "env \<Rightarrow> command \<Rightarrow> ctrl_error option \<times> ctrl_call list" where
  "dispatch_validated e cmd =
     (if isLeader e then after [RaftState] (applyCommand e cmd)
      else after [RaftState, RaftLeaderWithID, MeshGetOrConnectPeer (leaderAddr e)]
        (case meshGetOrConnectPeer e (leaderAddr e) of
           Inl err \<Rightarrow> (Some err, [])
         | Inr peer \<Rightarrow>
             after [CmdEncode]
               (case encode cmd of
                  Inl err \<Rightarrow> (Some err, [])
                | Inr encoded \<Rightarrow>
                    after [ChannelSendForReply peer (NewLogEntryType e) encoded]
                      (case channelSendForReply e peer (NewLogEntryType e) encoded of
                         Inl err \<Rightarrow> (Some err, [])
                       | Inr result \<Rightarrow> (reply_error e result, [])))))"

definition Dispatch :: "env \<Rightarrow> command \<Rightarrow> ctrl_error option \<times> ctrl_call list" where
  "Dispatch e cmd =
     (case validate cmd of
        Some (Some err) \<Rightarrow> (Some err, [CmdValidate])
      | Some None \<Rightarrow> after [CmdValidate] (dispatch_validated e cmd)
      | None \<Rightarrow> dispatch_validated e cmd)"

subsection \<open>Join\<close>

text \<open>
  The controller's membership state: the \<open>bootstrapped\<close> flag, the pending \<open>servers\<close>
  and \<open>Config.MinClusterSize\<close> (a \<open>uint32\<close>).
\<close>

record controller =
  bootstrapped :: bool
  servers :: "server list"
  MinClusterSize :: "32 word"

text \<open>The loop that counts the pending servers with \<open>raft.Voter\<close> suffrage, in \<open>uint32\<close>.\<close>

fun votingCount :: "server list \<Rightarrow> 32 word \<Rightarrow> 32 word" where
  "votingCount [] c = c"
| "votingCount (s # ss) c = votingCount ss (if Suffrage s = Voter then c + 1 else c)"

definition Join ::
  "env \<Rightarrow> controller \<Rightarrow> JoinRequest \<Rightarrow> (ctrl_error option \<times> controller) \<times> ctrl_call list" where
  "Join e self req =
     (if Id req = [] then ((Some (InvalidServerId (Id req)), self), [])
      else if Addr req = [] then ((Some (InvalidServerAddr (Addr req) (Id req)), self), [])
      else if bootstrapped self then ((HandleJoin e req, self), [CtrlHandleJoin req])
      else if raftLastIndex e > 0
        then ((HandleJoin e req, self), [RaftLastIndex, CtrlHandleJoin req])
      else
        (let suffrage = (if IsVoter req then Nonvoter else Voter);
             self = self\<lparr>servers := servers self @
                      [\<lparr>Suffrage = suffrage, ID = Id req, Address = Addr req\<rparr>]\<rparr>
         in if votingCount (servers self) 0 \<ge> MinClusterSize self then
              (case raftBootstrapCluster e (servers self) of
                 Some err \<Rightarrow>
                   ((Some (FailedToBootstrapCluster err), self),
                    [RaftLastIndex, RaftBootstrapCluster (servers self)])
               | None \<Rightarrow>
                   ((None, self\<lparr>bootstrapped := True\<rparr>),
                    [RaftLastIndex, RaftBootstrapCluster (servers self)]))
            else ((None, self), [RaftLastIndex])))"

section \<open>Channel tracing: \<^verbatim>\<open>trace/channel_peekhandler.go\<close>\<close>

text \<open>
  The handler's fields that the toggling reads and writes: \<open>appId\<close>, the channel's
  logical name and the \<open>enabled\<close> flag. A \<open>SourceMatcher\<close> is its \<open>Matches\<close> predicate.
  \<open>SourceType\<close> and its constant \<open>SourceTypePipe\<close> are declared in another file of the
  package: the constant is a parameter.
\<close>

record ChannelPeekHandler =
  appId :: string
  LogicalName :: string
  enabled :: bool

record ToggleApplyResult =
  matched :: bool
  resultAppId :: string
  resultName :: string
  prevState :: bool
  nextState :: bool

definition enable :: "ChannelPeekHandler \<Rightarrow> bool \<Rightarrow> ChannelPeekHandler" where
  "enable handler enabled' = handler\<lparr>enabled := True\<rparr>"

definition IsEnabled :: "ChannelPeekHandler \<Rightarrow> bool" where
  "IsEnabled handler = enabled handler"

text \<open>
  \<open>ToggleTracing\<close> returns the handler after the call and the result it sends on
  \<open>resultChan\<close>.
\<close>

definition ToggleTracing ::
  "int \<Rightarrow> ChannelPeekHandler \<Rightarrow> int \<Rightarrow> (string \<Rightarrow> bool) \<Rightarrow> bool
     \<Rightarrow> ChannelPeekHandler \<times> ToggleApplyResult" where
  "ToggleTracing SourceTypePipe handler sourceType matcher enable' =
     (let name = LogicalName handler;
          matched' = (sourceType = SourceTypePipe \<and> matcher name);
          prevState' = IsEnabled handler;
          handler' = (if matched' then enable handler enable' else handler);
          nextState' = (if matched' then enable' else prevState')
      in (handler',
          \<lparr>matched = matched', resultAppId = appId handler, resultName = name,
           prevState = prevState', nextState = nextState'\<rparr>))"

definition EnableTracing ::
  "int \<Rightarrow> ChannelPeekHandler \<Rightarrow> int \<Rightarrow> (string \<Rightarrow> bool)
     \<Rightarrow> ChannelPeekHandler \<times> ToggleApplyResult" where
  "EnableTracing SourceTypePipe handler sourceType matcher =
     ToggleTracing SourceTypePipe handler sourceType matcher True"

definition DisableTracing ::
  "int \<Rightarrow> ChannelPeekHandler \<Rightarrow> int \<Rightarrow> (string \<Rightarrow> bool)
     \<Rightarrow> ChannelPeekHandler \<times> ToggleApplyResult" where
  "DisableTracing SourceTypePipe handler sourceType matcher =
     ToggleTracing SourceTypePipe handler sourceType matcher False"

text \<open>A run of calls through the interface: each is a source type, a matcher and a flag.\<close>

fun toggles ::
  "int \<Rightarrow> ChannelPeekHandler \<Rightarrow> (int \<times> (string \<Rightarrow> bool) \<times> bool) list \<Rightarrow> ChannelPeekHandler" where
  "toggles SourceTypePipe handler [] = handler"
| "toggles SourceTypePipe handler ((sourceType, matcher, enable') # rest) =
     toggles SourceTypePipe (fst (ToggleTracing SourceTypePipe handler sourceType matcher enable')) rest"

section \<open>Properties of the wire format\<close>

subsection \<open>Little-endian reading undoes writing\<close>

lemma leUint32_putUint32: "leUint32 (putUint32 v) = v"
  unfolding leUint32_def putUint32_def
proof (rule bit_word_eqI, goal_cases)
  case (1 n)
  then have "n < 8 \<or> (8 \<le> n \<and> n < 16) \<or> (16 \<le> n \<and> n < 24) \<or> (24 \<le> n \<and> n < 32)"
    by auto
  then show ?case
    by (elim disjE conjE) (auto simp: bit_simps)
qed

lemma leUint16_putUint16: "leUint16 (putUint16 v) = v"
  unfolding leUint16_def putUint16_def
  by (rule bit_word_eqI) (auto simp: bit_simps)

lemma readInt32_putUint32: "readInt32 (putUint32 s) = Inr s"
  using leUint32_putUint32 [of s]
  by (simp add: readInt32_def io_ReadFull_def putUint32_def)

lemma readUint16_putUint16: "readUint16 (putUint16 v) = Inr v"
  using leUint16_putUint16 [of v]
  by (simp add: readUint16_def io_ReadFull_def putUint16_def)

lemma readInt32_short: "length bs < 4 \<Longrightarrow> \<exists>e. readInt32 bs = Inl e"
  by (simp add: readInt32_def io_ReadFull_def)

lemma readInt32_long: "4 \<le> length bs \<Longrightarrow> readInt32 bs = Inr (leUint32 (take 4 bs))"
  by (simp add: readInt32_def io_ReadFull_def)

subsection \<open>The frame that encodeMessage builds\<close>

lemma encodeMessage_frame:
  "encodeMessage m =
     (if 1457 < length (payload m) then Err (MessageTooLong (15 + length (payload m)))
      else Ok (magicV1 @ putUint32 (sequence m) @ [fragment m, ofFragments m, messageType m]
               @ putUint16 0 @ putUint16 (of_nat (length (payload m))) @ payload m))"
  by (simp add: encodeMessage_def binary_Write_int32_def binary_Write_uint16_def
      buffer_Read_def mss_def magicV1_def putUint32_def putUint16_def Let_def)

subsection \<open>The checks of decodeMessage\<close>

lemma upt_0_4: "[0 ..< 4] = [0, 1, 2, 3::nat]"
  by (simp add: upt_rec)

lemma bad_magic_iff:
  "bad_magic d \<longleftrightarrow> d ! 0 \<noteq> 1 \<or> d ! 1 \<noteq> 2 \<or> d ! 2 \<noteq> 2 \<or> d ! 3 \<noteq> 0"
  by (auto simp add: bad_magic_def magicV1_def upt_0_4 numeral_2_eq_2 numeral_3_eq_3)

lemma length_ge_4E:
  "4 \<le> length d \<Longrightarrow> \<exists>a b c e r. d = a # b # c # e # r"
  by (auto simp: numeral_eq_Suc Suc_le_length_iff)

lemma bad_magic_take:
  assumes "4 \<le> length d"
  shows "bad_magic d \<longleftrightarrow> take 4 d \<noteq> magicV1"
proof -
  obtain a b c e r where d: "d = a # b # c # e # r"
    using length_ge_4E [OF assms] by blast
  show ?thesis by (auto simp: d bad_magic_iff magicV1_def)
qed

lemma subslice_2:
  "i + 2 \<le> length (elems b) \<Longrightarrow> subslice b i (i + 2) = [elems b ! i, elems b ! Suc i]"
  by (simp add: subslice_def numeral_2_eq_2 take_Suc_conv_app_nth nth_append)

lemma decodeMessage_short:
  "length (elems b) < 15 \<Longrightarrow> decodeMessage b = Err ShortRead"
  by (simp add: decodeMessage_def messageSectionLength_def)

lemma decodeMessage_bad_magic:
  "15 \<le> length (elems b) \<Longrightarrow> take 4 (elems b) \<noteq> magicV1 \<Longrightarrow> decodeMessage b = Err BadMagic"
  by (simp add: decodeMessage_def messageSectionLength_def bad_magic_take)

lemma readInt32_subslice:
  "15 \<le> length (elems b) \<Longrightarrow> \<exists>s. readInt32 (subslice b 4 8) = Inr s"
  by (simp add: readInt32_def io_ReadFull_def subslice_def)

lemma decodeMessage_headers:
  assumes len: "15 \<le> length (elems b)"
    and magic: "take 4 (elems b) = magicV1"
    and hl: "leUint16 [elems b ! 11, elems b ! 12] \<noteq> 0"
  shows "decodeMessage b = Err HeadersError"
proof -
  have short: "\<not> length (elems b) < messageSectionLength"
    using len by (simp add: messageSectionLength_def)
  have ok: "\<not> bad_magic (elems b)"
    using len magic by (simp add: bad_magic_take)
  obtain s where s: "readInt32 (subslice b 4 8) = Inr s"
    using readInt32_subslice [OF len] by blast
  have "subslice b 11 (11 + 2) = [elems b ! 11, elems b ! Suc 11]"
    using len by (intro subslice_2) simp
  then have sub: "subslice b 11 13 = [elems b ! 11, elems b ! 12]"
    by simp
  have h: "readUint16 (subslice b 11 13) = Inr (leUint16 [elems b ! 11, elems b ! 12])"
    by (simp add: sub readUint16_def io_ReadFull_def)
  show ?thesis
    unfolding decodeMessage_def Let_def
    using hl by (simp add: short ok s h)
qed

text \<open>
  The payload's bounds are checked against the capacity, not the length: with spare
  capacity behind the buffer, a payload length that runs over the buffer's end yields the
  bytes that lie there. A payload length of 65521 or more wraps the upper bound below
  the lower one, which panics whatever the capacity.
\<close>

lemma decodeMessage_reads_behind_length:
  "decodeMessage \<lparr>elems = [1, 2, 2, 0, 0, 0, 0, 0, 0, 1, 0, 0, 0, 1, 0], spare = [7]\<rparr> =
     Ok \<lparr>sequence = 0, fragment = 0, ofFragments = 1, messageType = 0, headersLength = 0,
         payloadLength = 0, payload = [7]\<rparr>"
  by code_simp

lemma decodeMessage_wrapped_bound:
  "decodeMessage \<lparr>elems = [1, 2, 2, 0, 0, 0, 0, 0, 0, 1, 0, 0, 0, 0xFF, 0xFF], spare = sp\<rparr> = Panic"
proof -
  have s: "readInt32 (subslice \<lparr>elems = [1, 2, 2, 0, 0, 0, 0, 0, 0, 1, 0, 0, 0, 0xFF, 0xFF], spare = sp\<rparr> 4 8) = Inr 0"
    by (simp add: subslice_def readInt32_def io_ReadFull_def leUint32_def)
  have h: "readUint16 (subslice \<lparr>elems = [1, 2, 2, 0, 0, 0, 0, 0, 0, 1, 0, 0, 0, 0xFF, 0xFF], spare = sp\<rparr> 11 13) = Inr 0"
    by (simp add: subslice_def readUint16_def io_ReadFull_def leUint16_def)
  have p: "readUint16 (subslice \<lparr>elems = [1, 2, 2, 0, 0, 0, 0, 0, 0, 1, 0, 0, 0, 0xFF, 0xFF], spare = sp\<rparr> 13 15) = Inr 0xFFFF"
    by (simp add: subslice_def readUint16_def io_ReadFull_def leUint16_def)
  have m: "\<not> bad_magic [1, 2, 2, 0, 0, 0, 0, 0, 0, 1, 0, 0, 0, 0xFF, 0xFF]"
    by (simp add: bad_magic_iff)
  show ?thesis
    unfolding decodeMessage_def Let_def
    by (simp add: s h p m messageSectionLength_def)
qed

lemma decode_frame:
  assumes "length p \<le> 1457"
  shows "decodeMessage \<lparr>elems = magicV1 @ putUint32 s @ [f, o', t] @ putUint16 0
                             @ putUint16 (of_nat (length p)) @ p, spare = sp\<rparr>
     = Ok \<lparr>sequence = s, fragment = f, ofFragments = o', messageType = t, headersLength = 0,
           payloadLength = 0, payload = p\<rparr>"
proof -
  define d where
    "d = magicV1 @ putUint32 s @ [f, o', t] @ putUint16 0 @ putUint16 (of_nat (length p)) @ p"
  define D where "D = \<lparr>elems = d, spare = sp\<rparr>"
  have el: "elems D = d" by (simp add: D_def)
  have len: "length d = 15 + length p"
    by (simp add: d_def magicV1_def putUint32_def putUint16_def)
  have magic: "\<not> bad_magic d"
    by (simp add: d_def bad_magic_iff magicV1_def)
  have s48: "subslice D 4 8 = putUint32 s"
    by (simp add: D_def d_def subslice_def magicV1_def putUint32_def putUint16_def)
  have s1113: "subslice D 11 13 = putUint16 0"
    by (simp add: D_def d_def subslice_def magicV1_def putUint32_def putUint16_def)
  have s1315: "subslice D 13 15 = putUint16 (of_nat (length p))"
    by (simp add: D_def d_def subslice_def magicV1_def putUint32_def putUint16_def)
  have hi: "unat (15 + (0::uint16) + of_nat (length p)) = 15 + length p"
    using assms by (simp add: unat_word_ariths unat_of_nat)
  have lo: "unat (15 + (0::uint16)) = 15" by simp
  have pay: "subslice D 15 (15 + length p) = p"
    by (simp add: D_def d_def subslice_def magicV1_def putUint32_def putUint16_def)
  have f8: "d ! 8 = f" and f9: "d ! 9 = o'" and f10: "d ! 10 = t"
    by (simp_all add: d_def magicV1_def putUint32_def putUint16_def)
  have short: "\<not> 15 + length p < 15" by simp
  have c: "cap D = 15 + length p + length sp"
    by (simp add: cap_def D_def len)
  have "decodeMessage D = Ok \<lparr>sequence = s, fragment = f, ofFragments = o', messageType = t,
      headersLength = 0, payloadLength = 0, payload = p\<rparr>"
    unfolding decodeMessage_def Let_def el
    by (simp only: len short magic s48 s1113 s1315 readInt32_putUint32 readUint16_putUint16
        hi lo pay f8 f9 f10 c messageSectionLength_def zero_message_def sum.case if_False
        if_True simp_thms message.simps not_less le_add1 add_leD1 trans_le_add1 order_refl)
  then show ?thesis by (simp only: D_def d_def)
qed

lemma decode_encode:
  assumes "length (payload m) \<le> 1457"
  shows "\<exists>d. encodeMessage m = Ok d \<and>
     decodeMessage \<lparr>elems = d, spare = sp\<rparr> = Ok (m\<lparr>headersLength := 0, payloadLength := 0\<rparr>)"
proof -
  have "decodeMessage \<lparr>elems = magicV1 @ putUint32 (sequence m)
          @ [fragment m, ofFragments m, messageType m] @ putUint16 0
          @ putUint16 (of_nat (length (payload m))) @ payload m, spare = sp\<rparr>
      = Ok (m\<lparr>headersLength := 0, payloadLength := 0\<rparr>)"
    using decode_frame [OF assms] by (cases m) simp
  with assms show ?thesis
    by (simp add: encodeMessage_frame)
qed

subsection \<open>Encoding and decoding\<close>

text \<open>
  Claim C8. The message that \<open>writeHello\<close> builds for the identity token \<open>abc\<close> has
  sequence -1, fragment 0, ofFragments 1, type Hello, headersLength 0, payloadLength 3 and
  the payload \<open>61 62 63\<close>, and \<open>encodeMessage\<close> turns it into exactly the 18 bytes
  \<open>01 02 02 00 FF FF FF FF 00 01 00 00 00 03 00 61 62 63\<close>.
\<close>
theorem encode_hello_abc:
  "helloMessage ''abc'' =
     \<lparr>sequence = - 1, fragment = 0, ofFragments = 1, messageType = Hello, headersLength = 0,
      payloadLength = 3, payload = [0x61, 0x62, 0x63]\<rparr> \<and>
   encodeMessage (helloMessage ''abc'') =
     Ok [0x01, 0x02, 0x02, 0x00, 0xFF, 0xFF, 0xFF, 0xFF, 0x00, 0x01, 0x00, 0x00, 0x00,
         0x03, 0x00, 0x61, 0x62, 0x63]"
  by code_simp

text \<open>
  Claim C5. For every message, \<open>encodeMessage\<close> returns an error exactly when the frame
  (the 15 bytes of the message section and the payload) is longer than \<open>mss = 1472\<close>
  bytes, which is exactly when the payload is longer than 1457 bytes; otherwise it
  returns the frame: the magic, the sequence in little endian, fragment, ofFragments,
  type, a zero headers length, the payload's length in little endian and the payload.
\<close>
theorem encodeMessage_size_bound:
  "(\<exists>e. encodeMessage m = Err e) = (mss < messageSectionLength + length (payload m)) \<and>
   (mss < messageSectionLength + length (payload m)) = (1457 < length (payload m)) \<and>
   encodeMessage m =
     (if 1457 < length (payload m) then Err (MessageTooLong (15 + length (payload m)))
      else Ok (magicV1 @ putUint32 (sequence m) @ [fragment m, ofFragments m, messageType m]
               @ putUint16 0 @ putUint16 (of_nat (length (payload m))) @ payload m))"
proof -
  have "(mss < messageSectionLength + length (payload m)) = (1457 < length (payload m))"
    by (auto simp: mss_def messageSectionLength_def)
  then show ?thesis
    by (simp add: encodeMessage_frame)
qed

text \<open>
  Claim C4. For every buffer, \<open>decodeMessage\<close> returns an error, and so no message, when
  the buffer has fewer than 15 bytes, or its first 4 bytes are not the magic
  \<open>01 02 02 00\<close>, or the little-endian headers length at offsets 11 and 12 is not zero.
\<close>
theorem decodeMessage_rejects:
  assumes "length (elems b) < 15 \<or> take 4 (elems b) \<noteq> magicV1
           \<or> leUint16 [elems b ! 11, elems b ! 12] \<noteq> 0"
  shows "\<exists>e. decodeMessage b = Err e"
proof (cases "length (elems b) < 15")
  case True
  then show ?thesis by (simp add: decodeMessage_short)
next
  case False
  then have len: "15 \<le> length (elems b)" by simp
  show ?thesis
  proof (cases "take 4 (elems b) = magicV1")
    case False
    with len show ?thesis by (simp add: decodeMessage_bad_magic)
  next
    case True
    with assms len have "leUint16 [elems b ! 11, elems b ! 12] \<noteq> 0" by auto
    with len True show ?thesis by (simp add: decodeMessage_headers)
  qed
qed

theorem decodeMessage_rejects_witness:
  "length (elems \<lparr>elems = [1, 2, 2, 0, 0, 0, 0, 0, 0, 1, 0, 0, 0, 0], spare = []\<rparr>) < 15 \<and>
   (\<exists>e. decodeMessage \<lparr>elems = [1, 2, 2, 0, 0, 0, 0, 0, 0, 1, 0, 0, 0, 0], spare = []\<rparr> = Err e) \<and>
   take 4 (elems \<lparr>elems = [1, 2, 3, 0, 0, 0, 0, 0, 0, 1, 0, 0, 0, 0, 0], spare = []\<rparr>) \<noteq> magicV1 \<and>
   (\<exists>e. decodeMessage \<lparr>elems = [1, 2, 3, 0, 0, 0, 0, 0, 0, 1, 0, 0, 0, 0, 0], spare = []\<rparr> = Err e) \<and>
   leUint16 [elems \<lparr>elems = [1, 2, 2, 0, 0, 0, 0, 0, 0, 1, 0, 1, 0, 0, 0], spare = []\<rparr> ! 11,
             elems \<lparr>elems = [1, 2, 2, 0, 0, 0, 0, 0, 0, 1, 0, 1, 0, 0, 0], spare = []\<rparr> ! 12] \<noteq> 0 \<and>
   (\<exists>e. decodeMessage \<lparr>elems = [1, 2, 2, 0, 0, 0, 0, 0, 0, 1, 0, 1, 0, 0, 0], spare = []\<rparr> = Err e)"
proof -
  have a: "length (elems \<lparr>elems = [1, 2, 2, 0, 0, 0, 0, 0, 0, 1, 0, 0, 0, 0], spare = []\<rparr>) < 15"
    by simp
  have b: "take 4 (elems \<lparr>elems = [1, 2, 3, 0, 0, 0, 0, 0, 0, 1, 0, 0, 0, 0, 0], spare = []\<rparr>) \<noteq> magicV1"
    by (simp add: magicV1_def)
  have c: "leUint16 [elems \<lparr>elems = [1, 2, 2, 0, 0, 0, 0, 0, 0, 1, 0, 1, 0, 0, 0], spare = []\<rparr> ! 11,
             elems \<lparr>elems = [1, 2, 2, 0, 0, 0, 0, 0, 0, 1, 0, 1, 0, 0, 0], spare = []\<rparr> ! 12] \<noteq> 0"
    by (simp add: leUint16_def)
  show ?thesis
    using a b c
      decodeMessage_rejects [of "\<lparr>elems = [1, 2, 2, 0, 0, 0, 0, 0, 0, 1, 0, 0, 0, 0], spare = []\<rparr>"]
      decodeMessage_rejects [of "\<lparr>elems = [1, 2, 3, 0, 0, 0, 0, 0, 0, 1, 0, 0, 0, 0, 0], spare = []\<rparr>"]
      decodeMessage_rejects [of "\<lparr>elems = [1, 2, 2, 0, 0, 0, 0, 0, 0, 1, 0, 1, 0, 0, 0], spare = []\<rparr>"]
    by blast
qed

text \<open>
  Claim C7. There is a buffer of at least 15 bytes with the right magic and a zero
  headers length, whose payload length field is larger than the number of bytes behind
  the message section, on which \<open>decodeMessage\<close> returns neither an error nor a message:
  the payload's slice expression is out of range and the call panics.
\<close>
theorem decodeMessage_payload_out_of_range:
  "\<exists>b. 15 \<le> length (elems b) \<and> take 4 (elems b) = magicV1 \<and>
     leUint16 [elems b ! 11, elems b ! 12] = 0 \<and>
     length (elems b) - 15 < unat (leUint16 [elems b ! 13, elems b ! 14]) \<and>
     decodeMessage b = Panic"
  by (rule exI [of _ "\<lparr>elems = [1, 2, 2, 0, 0, 0, 0, 0, 0, 1, 0, 0, 0, 1, 0], spare = []\<rparr>"])
    code_simp

text \<open>
  Apart from \<open>payloadLength\<close>, the round trip holds. For every message whose payload has
  at most 1457 bytes, encoding succeeds, and decoding the frame (whatever lies behind it
  in the backing array) gives a message with the same sequence, fragment, ofFragments,
  messageType and payload, and with \<open>headersLength = 0\<close>.
\<close>

lemma roundtrip_fields:
  assumes "length (payload m) \<le> 1457"
  shows "\<exists>d m'. encodeMessage m = Ok d \<and> decodeMessage \<lparr>elems = d, spare = sp\<rparr> = Ok m' \<and>
     sequence m' = sequence m \<and> fragment m' = fragment m \<and> ofFragments m' = ofFragments m \<and>
     messageType m' = messageType m \<and> headersLength m' = 0 \<and> payload m' = payload m"
proof -
  obtain d where "encodeMessage m = Ok d"
    and "decodeMessage \<lparr>elems = d, spare = sp\<rparr> = Ok (m\<lparr>headersLength := 0, payloadLength := 0\<rparr>)"
    using decode_encode [OF assms] by blast
  then show ?thesis by simp
qed

text \<open>
  On the messages that \<open>writeHello\<close> and \<open>writePing\<close> build (a zero headers length and
  the payload's length as \<open>payloadLength\<close>), the decoded message differs from the encoded
  one as soon as the payload is not empty, and in \<open>payloadLength\<close> only: assigning the
  payload's length to that field gives the message back.
\<close>

lemma roundtrip_loses_payloadLength:
  assumes len: "length (payload m) \<le> 1457" and ne: "payload m \<noteq> []"
    and hl: "headersLength m = 0" and pl: "payloadLength m = of_nat (length (payload m))"
  shows "\<exists>d m'. encodeMessage m = Ok d \<and> decodeMessage \<lparr>elems = d, spare = sp\<rparr> = Ok m' \<and>
     m' = m\<lparr>payloadLength := 0\<rparr> \<and> m' \<noteq> m \<and>
     m'\<lparr>payloadLength := of_nat (length (payload m'))\<rparr> = m"
proof -
  obtain d where d: "encodeMessage m = Ok d"
    and dec: "decodeMessage \<lparr>elems = d, spare = sp\<rparr> = Ok (m\<lparr>headersLength := 0, payloadLength := 0\<rparr>)"
    using decode_encode [OF len] by blast
  have same: "m\<lparr>headersLength := 0, payloadLength := 0\<rparr> = m\<lparr>payloadLength := 0\<rparr>"
    using hl by (cases m) simp
  have "0 < length (payload m)" using ne by simp
  with len have "unat (of_nat (length (payload m)) :: uint16) \<noteq> 0"
    by (simp add: unat_of_nat)
  then have "payloadLength m \<noteq> 0"
    using pl by auto
  then have diff: "m\<lparr>payloadLength := 0\<rparr> \<noteq> m"
    by (cases m) auto
  have restored: "(m\<lparr>payloadLength := 0\<rparr>)\<lparr>payloadLength := of_nat (length (payload (m\<lparr>payloadLength := 0\<rparr>)))\<rparr> = m"
    using pl by (cases m) simp
  show ?thesis
    using d dec same diff restored by simp
qed

text \<open>
  Claim C2, on the message that \<open>writeHello\<close> builds for the token \<open>abc\<close>. Its payload has
  3 bytes and its \<open>payloadLength\<close> is 3. Encoding succeeds; decoding the encoded bytes
  gives a message with \<open>payloadLength = 0\<close>, which is not the message that was encoded:
  \<open>decodeMessage\<close> reads the payload length and never assigns it to the field.
\<close>
theorem roundtrip_hello_payloadLength:
  "length (payload (helloMessage ''abc'')) \<le> 1457 \<and>
   headersLength (helloMessage ''abc'') = 0 \<and>
   payloadLength (helloMessage ''abc'') = 3 \<and>
   encodeMessage (helloMessage ''abc'') =
     Ok [0x01, 0x02, 0x02, 0x00, 0xFF, 0xFF, 0xFF, 0xFF, 0x00, 0x01, 0x00, 0x00, 0x00,
         0x03, 0x00, 0x61, 0x62, 0x63] \<and>
   decodeMessage \<lparr>elems = [0x01, 0x02, 0x02, 0x00, 0xFF, 0xFF, 0xFF, 0xFF, 0x00, 0x01, 0x00,
         0x00, 0x00, 0x03, 0x00, 0x61, 0x62, 0x63], spare = []\<rparr> =
     Ok ((helloMessage ''abc'')\<lparr>payloadLength := 0\<rparr>) \<and>
   (helloMessage ''abc'')\<lparr>payloadLength := 0\<rparr> \<noteq> helloMessage ''abc''"
  by code_simp

subsection \<open>Dispatching decoded messages\<close>

text \<open>
  Claim C3 as stated fails. A single-fragment Ping with a payload of 5 bytes is not
  rejected: \<open>readInt32\<close> reads the first 4 bytes and the callback is invoked. And a Ping
  with a payload of exactly 4 bytes and \<open>ofFragments = 2\<close> is rejected before its
  payload is read.
\<close>
theorem handleMessage_ping_counterexample:
  "messageType \<lparr>sequence = 7, fragment = 0, ofFragments = 1, messageType = Ping,
       headersLength = 0, payloadLength = 0, payload = [1, 0, 0, 0, 9]\<rparr> = Ping \<and>
   length (payload \<lparr>sequence = 7, fragment = 0, ofFragments = 1, messageType = Ping,
       headersLength = 0, payloadLength = 0, payload = [1, 0, 0, 0, 9]\<rparr>) \<noteq> 4 \<and>
   handleMessage (Some \<lparr>sequence = 7, fragment = 0, ofFragments = 1, messageType = Ping,
       headersLength = 0, payloadLength = 0, payload = [1, 0, 0, 0, 9]\<rparr>) 0 ''peer'' =
     (Ok (), [HandlePing 7 1 0 ''peer'']) \<and>
   messageType \<lparr>sequence = 7, fragment = 0, ofFragments = 2, messageType = Ping,
       headersLength = 0, payloadLength = 0, payload = [1, 0, 0, 0]\<rparr> = Ping \<and>
   length (payload \<lparr>sequence = 7, fragment = 0, ofFragments = 2, messageType = Ping,
       headersLength = 0, payloadLength = 0, payload = [1, 0, 0, 0]\<rparr>) = 4 \<and>
   handleMessage (Some \<lparr>sequence = 7, fragment = 0, ofFragments = 2, messageType = Ping,
       headersLength = 0, payloadLength = 0, payload = [1, 0, 0, 0]\<rparr>) 0 ''peer'' =
     (Err (PingExpectsSingleFragment ''peer''), [])"
  by code_simp

text \<open>
  Claim C3, amended. For every message of type Ping: when the payload has fewer than 4
  bytes, or when the message is not a single fragment (\<open>fragment \<noteq> 0\<close> or
  \<open>ofFragments \<noteq> 1\<close>), \<open>handleMessage\<close> returns an error and invokes no callback; when
  it is a single fragment with at least 4 payload bytes, the ping callback is invoked
  once, with the message's sequence and with \<open>replyFor\<close> the \<open>int32\<close> read in little
  endian from the first 4 payload bytes, which are the whole payload when it has
  exactly 4 bytes.
\<close>
theorem handleMessage_ping:
  assumes "messageType m = Ping"
  shows "(length (payload m) < 4 \<longrightarrow> (\<exists>e. handleMessage (Some m) conn peer = (Err e, []))) \<and>
     (fragment m \<noteq> 0 \<or> ofFragments m \<noteq> 1 \<longrightarrow>
        handleMessage (Some m) conn peer = (Err (PingExpectsSingleFragment peer), [])) \<and>
     (fragment m = 0 \<and> ofFragments m = 1 \<and> 4 \<le> length (payload m) \<longrightarrow>
        handleMessage (Some m) conn peer =
          (Ok (), [HandlePing (sequence m) (leUint32 (take 4 (payload m))) conn peer])) \<and>
     (fragment m = 0 \<and> ofFragments m = 1 \<and> length (payload m) = 4 \<longrightarrow>
        handleMessage (Some m) conn peer =
          (Ok (), [HandlePing (sequence m) (leUint32 (payload m)) conn peer]))"
proof (intro conjI impI)
  assume "length (payload m) < 4"
  then obtain e where "readInt32 (payload m) = Inl e"
    using readInt32_short by blast
  with assms show "\<exists>e. handleMessage (Some m) conn peer = (Err e, [])"
    by (simp add: handleMessage_def)
next
  assume "fragment m \<noteq> 0 \<or> ofFragments m \<noteq> 1"
  with assms show "handleMessage (Some m) conn peer = (Err (PingExpectsSingleFragment peer), [])"
    by (auto simp: handleMessage_def)
next
  assume "fragment m = 0 \<and> ofFragments m = 1 \<and> 4 \<le> length (payload m)"
  with assms show "handleMessage (Some m) conn peer =
      (Ok (), [HandlePing (sequence m) (leUint32 (take 4 (payload m))) conn peer])"
    by (simp add: handleMessage_def readInt32_long)
next
  assume "fragment m = 0 \<and> ofFragments m = 1 \<and> length (payload m) = 4"
  with assms show "handleMessage (Some m) conn peer =
      (Ok (), [HandlePing (sequence m) (leUint32 (payload m)) conn peer])"
    by (simp add: handleMessage_def readInt32_long)
qed

theorem handleMessage_ping_witness:
  "messageType \<lparr>sequence = 7, fragment = 0, ofFragments = 1, messageType = Ping,
       headersLength = 0, payloadLength = 0, payload = [0xFE, 0xFF, 0xFF, 0xFF]\<rparr> = Ping \<and>
   handleMessage (Some \<lparr>sequence = 7, fragment = 0, ofFragments = 1, messageType = Ping,
       headersLength = 0, payloadLength = 0, payload = [0xFE, 0xFF, 0xFF, 0xFF]\<rparr>) 0 ''peer'' =
     (Ok (), [HandlePing 7 (- 2) 0 ''peer'']) \<and>
   sint (- 2 :: int32) = - 2 \<and>
   messageType \<lparr>sequence = 7, fragment = 0, ofFragments = 1, messageType = Ping,
       headersLength = 0, payloadLength = 0, payload = [1, 0, 0]\<rparr> = Ping \<and>
   (\<exists>e. handleMessage (Some \<lparr>sequence = 7, fragment = 0, ofFragments = 1, messageType = Ping,
       headersLength = 0, payloadLength = 0, payload = [1, 0, 0]\<rparr>) 0 ''peer'' = (Err e, []))"
proof -
  have eq: "leUint32 [0xFE, 0xFF, 0xFF, 0xFF] = - 2"
    by (simp add: leUint32_def)
  have s: "sint (- 2 :: int32) = - 2"
    by simp
  show ?thesis
    using eq s
      handleMessage_ping [of "\<lparr>sequence = 7, fragment = 0, ofFragments = 1, messageType = Ping,
        headersLength = 0, payloadLength = 0, payload = [0xFE, 0xFF, 0xFF, 0xFF]\<rparr>" 0 "''peer''"]
      handleMessage_ping [of "\<lparr>sequence = 7, fragment = 0, ofFragments = 1, messageType = Ping,
        headersLength = 0, payloadLength = 0, payload = [1, 0, 0]\<rparr>" 0 "''peer''"]
    by simp
qed

text \<open>
  Claim C6 as stated fails. A Hello with sequence -1 and \<open>ofFragments = 1\<close> whose
  \<open>fragment\<close> is 1 is rejected, and the hello callback is not invoked.
\<close>
theorem handleHello_counterexample:
  "messageType \<lparr>sequence = - 1, fragment = 1, ofFragments = 1, messageType = Hello,
       headersLength = 0, payloadLength = 0, payload = [0x61, 0x62, 0x63]\<rparr> = Hello \<and>
   sequence \<lparr>sequence = - 1, fragment = 1, ofFragments = 1, messageType = Hello,
       headersLength = 0, payloadLength = 0, payload = [0x61, 0x62, 0x63]\<rparr> = - 1 \<and>
   ofFragments \<lparr>sequence = - 1, fragment = 1, ofFragments = 1, messageType = Hello,
       headersLength = 0, payloadLength = 0, payload = [0x61, 0x62, 0x63]\<rparr> = 1 \<and>
   handleHello (Some \<lparr>sequence = - 1, fragment = 1, ofFragments = 1, messageType = Hello,
       headersLength = 0, payloadLength = 0, payload = [0x61, 0x62, 0x63]\<rparr>) 0 ''peer'' =
     (Err (HelloExpectsSingleFragment ''peer''), [])"
  by code_simp

text \<open>
  Claim C6, amended. For every message, \<open>handleHello\<close> returns an error and invokes no
  callback when the message is not of type Hello, or its sequence is not -1, or it is not
  a single fragment, that is \<open>fragment \<noteq> 0\<close> or \<open>ofFragments \<noteq> 1\<close>; otherwise it
  returns no error and invokes the hello callback once, with the identity token made of
  the payload's bytes.
\<close>
theorem handleHello_validation:
  "(messageType m \<noteq> Hello \<or> sequence m \<noteq> - 1 \<or> fragment m \<noteq> 0 \<or> ofFragments m \<noteq> 1 \<longrightarrow>
      (\<exists>e. handleHello (Some m) conn peer = (Err e, []))) \<and>
   (messageType m = Hello \<and> sequence m = - 1 \<and> fragment m = 0 \<and> ofFragments m = 1 \<longrightarrow>
      handleHello (Some m) conn peer =
        (Ok (), [HandleHello (bytes_token (payload m)) conn peer]))"
  by (auto simp: handleHello_def)

theorem handleHello_validation_witness:
  "handleHello (Some \<lparr>sequence = - 1, fragment = 0, ofFragments = 1, messageType = Hello,
       headersLength = 0, payloadLength = 0, payload = [0x61, 0x62, 0x63]\<rparr>) 0 ''peer'' =
     (Ok (), [HandleHello ''abc'' 0 ''peer'']) \<and>
   (\<exists>e. handleHello (Some \<lparr>sequence = 5, fragment = 0, ofFragments = 1, messageType = Hello,
       headersLength = 0, payloadLength = 0, payload = [0x61, 0x62, 0x63]\<rparr>) 0 ''peer'' =
     (Err e, [])) \<and>
   (\<exists>e. handleHello (Some \<lparr>sequence = - 1, fragment = 0, ofFragments = 2, messageType = Hello,
       headersLength = 0, payloadLength = 0, payload = [0x61, 0x62, 0x63]\<rparr>) 0 ''peer'' =
     (Err e, [])) \<and>
   (\<exists>e. handleHello (Some \<lparr>sequence = - 1, fragment = 0, ofFragments = 1, messageType = Ping,
       headersLength = 0, payloadLength = 0, payload = [0x61, 0x62, 0x63]\<rparr>) 0 ''peer'' =
     (Err e, []))"
proof -
  have tok: "bytes_token [0x61, 0x62, 0x63] = ''abc''"
    by code_simp
  have ne: "Ping \<noteq> Hello"
    by (simp add: Ping_def Hello_def)
  show ?thesis
    using tok ne
      handleHello_validation [of "\<lparr>sequence = - 1, fragment = 0, ofFragments = 1,
        messageType = Hello, headersLength = 0, payloadLength = 0,
        payload = [0x61, 0x62, 0x63]\<rparr>" 0 "''peer''"]
      handleHello_validation [of "\<lparr>sequence = 5, fragment = 0, ofFragments = 1,
        messageType = Hello, headersLength = 0, payloadLength = 0,
        payload = [0x61, 0x62, 0x63]\<rparr>" 0 "''peer''"]
      handleHello_validation [of "\<lparr>sequence = - 1, fragment = 0, ofFragments = 2,
        messageType = Hello, headersLength = 0, payloadLength = 0,
        payload = [0x61, 0x62, 0x63]\<rparr>" 0 "''peer''"]
      handleHello_validation [of "\<lparr>sequence = - 1, fragment = 0, ofFragments = 1,
        messageType = Ping, headersLength = 0, payloadLength = 0,
        payload = [0x61, 0x62, 0x63]\<rparr>" 0 "''peer''"]
    by simp
qed

section \<open>Properties of the consensus controller\<close>

lemma Dispatch_not_validatable:
  "validate cmd = None \<Longrightarrow> Dispatch e cmd = dispatch_validated e cmd"
  by (simp add: Dispatch_def)

lemma Dispatch_valid:
  "validate cmd = Some None \<Longrightarrow> Dispatch e cmd = after [CmdValidate] (dispatch_validated e cmd)"
  by (simp add: Dispatch_def)

lemma dispatch_validated_reads_state:
  "\<exists>cs. snd (dispatch_validated e cmd) = RaftState # cs"
  by (simp add: dispatch_validated_def after_def)

text \<open>
  Claim C9. When the command implements \<open>Validatable\<close> and \<open>Validate()\<close> returns the
  error \<open>err\<close>, \<open>Dispatch\<close> returns \<open>err\<close> and the call to \<open>Validate\<close> is all it
  does: the command is not encoded, nothing is applied to the raft log, no peer is looked
  up and nothing is sent to a leader.
\<close>
theorem Dispatch_validation_fails:
  assumes "validate cmd = Some (Some err)"
  shows "Dispatch e cmd = (Some err, [CmdValidate]) \<and>
     CmdEncode \<notin> set (snd (Dispatch e cmd)) \<and>
     (\<forall>log. RaftApply log \<notin> set (snd (Dispatch e cmd))) \<and>
     (\<forall>addr. MeshGetOrConnectPeer addr \<notin> set (snd (Dispatch e cmd))) \<and>
     (\<forall>peer t body. ChannelSendForReply peer t body \<notin> set (snd (Dispatch e cmd)))"
  using assms by (simp add: Dispatch_def)

theorem Dispatch_validation_fails_witness:
  "validate \<lparr>validate = Some (Some (Failure ''invalid'')), encode = Inr [1, 2, 3]\<rparr> = Some (Some (Failure ''invalid'')) \<and>
   Dispatch
     \<lparr>isLeader = True, leaderAddr = ''10.0.0.1:6262'',
       raftApply = (\<lambda>log. Inr RespNil), raftLastIndex = 1,
       raftBootstrapCluster = (\<lambda>servers. None), fsmDecode = (\<lambda>log. Inr ''cmd''),
       meshGetOrConnectPeer = (\<lambda>addr. Inr 0),
       channelSendForReply = (\<lambda>peer t body. Inl (Failure ''timeout'')),
       jsonUnmarshal = (\<lambda>body. Inl (Failure ''json'')), HandleJoin = (\<lambda>req. None),
       NewLogEntryType = 2050, SuccessResponseType = 2052, ErrorResponseType = 2051,
       HeaderErrorCode = 1000, ErrorCodeApiError = 1\<rparr>
     \<lparr>validate = Some (Some (Failure ''invalid'')), encode = Inr [1, 2, 3]\<rparr> =
     (Some (Failure ''invalid''), [CmdValidate])"
  using Dispatch_validation_fails [of "\<lparr>validate = Some (Some (Failure ''invalid'')), encode = Inr [1, 2, 3]\<rparr>" "Failure ''invalid''"
     "\<lparr>isLeader = True, leaderAddr = ''10.0.0.1:6262'',
       raftApply = (\<lambda>log. Inr RespNil), raftLastIndex = 1,
       raftBootstrapCluster = (\<lambda>servers. None), fsmDecode = (\<lambda>log. Inr ''cmd''),
       meshGetOrConnectPeer = (\<lambda>addr. Inr 0),
       channelSendForReply = (\<lambda>peer t body. Inl (Failure ''timeout'')),
       jsonUnmarshal = (\<lambda>body. Inl (Failure ''json'')), HandleJoin = (\<lambda>req. None),
       NewLogEntryType = 2050, SuccessResponseType = 2052, ErrorResponseType = 2051,
       HeaderErrorCode = 1000, ErrorCodeApiError = 1\<rparr>"]
  by simp

text \<open>
  What \<open>Join\<close> does with a well-formed request: on a bootstrapped controller, or when
  the log has entries, the request goes to \<open>HandleJoin\<close> and nothing is accumulated;
  otherwise one server is appended to the pending list.
\<close>

lemma Join_bootstrapped:
  "Id req \<noteq> [] \<Longrightarrow> Addr req \<noteq> [] \<Longrightarrow> bootstrapped self \<Longrightarrow>
     Join e self req = ((HandleJoin e req, self), [CtrlHandleJoin req])"
  by (simp add: Join_def)

lemma Join_log_has_entries:
  "Id req \<noteq> [] \<Longrightarrow> Addr req \<noteq> [] \<Longrightarrow> \<not> bootstrapped self \<Longrightarrow> 0 < raftLastIndex e \<Longrightarrow>
     Join e self req = ((HandleJoin e req, self), [RaftLastIndex, CtrlHandleJoin req])"
  by (simp add: Join_def)

lemma Join_accumulates:
  "Id req \<noteq> [] \<Longrightarrow> Addr req \<noteq> [] \<Longrightarrow> \<not> bootstrapped self \<Longrightarrow> raftLastIndex e = 0 \<Longrightarrow>
     servers (snd (fst (Join e self req))) =
       servers self @ [\<lparr>Suffrage = (if IsVoter req then Nonvoter else Voter), ID = Id req,
                         Address = Addr req\<rparr>]"
  by (simp add: Join_def Let_def split: option.split)

text \<open>
  The count is the number of pending servers with \<open>Voter\<close> suffrage, in \<open>uint32\<close>, and
  \<open>BootstrapCluster\<close> is called exactly when it has reached \<open>MinClusterSize\<close>. A request
  adds to the count when its voter flag is not set.
\<close>

lemma votingCount_filter:
  "votingCount ss c = c + of_nat (length (filter (\<lambda>s. Suffrage s = Voter) ss))"
  by (induction ss arbitrary: c) simp_all

lemma Join_bootstrap_call:
  assumes "Id req \<noteq> []" and "Addr req \<noteq> []" and "\<not> bootstrapped self" and "raftLastIndex e = 0"
  shows "(\<exists>ss. RaftBootstrapCluster ss \<in> set (snd (Join e self req))) \<longleftrightarrow>
     MinClusterSize self \<le> of_nat (length (filter (\<lambda>s. Suffrage s = Voter) (servers self))
                                     + (if IsVoter req then 0 else 1))"
  using assms by (auto simp: Join_def Let_def votingCount_filter split: option.split)

text \<open>
  Claim C1, at \<open>MinClusterSize = 1\<close> on a controller that is not bootstrapped, has no
  pending server and an empty log. A join request whose voter flag is set is recorded
  with \<open>Nonvoter\<close> suffrage and does not count: the cluster is not bootstrapped. A join
  request whose voter flag is not set is recorded with \<open>Voter\<close> suffrage and bootstraps
  the cluster at once.
\<close>
theorem Join_voter_flag:
  "Join (e\<lparr>raftLastIndex := 0, raftBootstrapCluster := (\<lambda>servers. None)\<rparr>)
      \<lparr>bootstrapped = False, servers = [], MinClusterSize = 1\<rparr>
      \<lparr>Addr = ''10.0.0.1:6262'', Id = ''n1'', IsVoter = True\<rparr> =
     ((None, \<lparr>bootstrapped = False,
              servers = [\<lparr>Suffrage = Nonvoter, ID = ''n1'', Address = ''10.0.0.1:6262''\<rparr>],
              MinClusterSize = 1\<rparr>),
      [RaftLastIndex]) \<and>
   Join (e\<lparr>raftLastIndex := 0, raftBootstrapCluster := (\<lambda>servers. None)\<rparr>)
      \<lparr>bootstrapped = False, servers = [], MinClusterSize = 1\<rparr>
      \<lparr>Addr = ''10.0.0.1:6262'', Id = ''n1'', IsVoter = False\<rparr> =
     ((None, \<lparr>bootstrapped = True,
              servers = [\<lparr>Suffrage = Voter, ID = ''n1'', Address = ''10.0.0.1:6262''\<rparr>],
              MinClusterSize = 1\<rparr>),
      [RaftLastIndex,
       RaftBootstrapCluster [\<lparr>Suffrage = Voter, ID = ''n1'', Address = ''10.0.0.1:6262''\<rparr>]])"
  by (simp add: Join_def)

section \<open>Properties of channel tracing\<close>

lemma ToggleTracing_keeps_enabled:
  "IsEnabled handler \<Longrightarrow>
     IsEnabled (fst (ToggleTracing SourceTypePipe handler sourceType matcher enable'))"
  by (simp add: ToggleTracing_def IsEnabled_def enable_def Let_def)

lemma toggles_keep_enabled:
  "IsEnabled handler \<Longrightarrow> IsEnabled (toggles SourceTypePipe handler calls)"
proof (induction calls arbitrary: handler)
  case Nil
  then show ?case by simp
next
  case (Cons c calls)
  obtain sourceType matcher enable' where c: "c = (sourceType, matcher, enable')"
    by (cases c) auto
  from Cons.prems
  have "IsEnabled (fst (ToggleTracing SourceTypePipe handler sourceType matcher enable'))"
    by (rule ToggleTracing_keeps_enabled)
  then show ?case
    by (simp add: c Cons.IH)
qed

lemma ToggleTracing_matched:
  "sourceType = SourceTypePipe \<Longrightarrow> matcher (LogicalName handler) \<Longrightarrow>
     IsEnabled (fst (ToggleTracing SourceTypePipe handler sourceType matcher enable'))"
  by (simp add: ToggleTracing_def IsEnabled_def enable_def Let_def)

text \<open>
  Claim C10. For every handler that the call matches (the source type is
  \<open>SourceTypePipe\<close> and the matcher accepts the channel's logical name),
  \<open>IsEnabled\<close> is true after \<open>DisableTracing\<close>, whatever it was before, and stays true
  after any further calls of \<open>ToggleTracing\<close>, with any source type, matcher and flag.
\<close>
theorem DisableTracing_stays_enabled:
  assumes "sourceType = SourceTypePipe" and "matcher (LogicalName handler)"
  shows "IsEnabled (fst (DisableTracing SourceTypePipe handler sourceType matcher)) \<and>
     IsEnabled (toggles SourceTypePipe
       (fst (DisableTracing SourceTypePipe handler sourceType matcher)) calls)"
proof -
  have "IsEnabled (fst (DisableTracing SourceTypePipe handler sourceType matcher))"
    using assms by (simp add: DisableTracing_def ToggleTracing_matched)
  then show ?thesis
    by (simp add: toggles_keep_enabled)
qed

theorem DisableTracing_stays_enabled_witness:
  "(0::int) = 0 \<and> (\<lambda>name. name = ''link1'')
      (LogicalName \<lparr>appId = ''router1'', LogicalName = ''link1'', enabled = False\<rparr>) \<and>
   IsEnabled (fst (DisableTracing 0
      \<lparr>appId = ''router1'', LogicalName = ''link1'', enabled = False\<rparr> 0
      (\<lambda>name. name = ''link1''))) \<and>
   IsEnabled (toggles 0 (fst (DisableTracing 0
      \<lparr>appId = ''router1'', LogicalName = ''link1'', enabled = False\<rparr> 0
      (\<lambda>name. name = ''link1'')))
      [(0, (\<lambda>name. name = ''link1''), False), (0, (\<lambda>name. True), False)])"
proof -
  have m: "(\<lambda>name. name = ''link1'')
      (LogicalName \<lparr>appId = ''router1'', LogicalName = ''link1'', enabled = False\<rparr>)"
    by simp
  show ?thesis
    using m DisableTracing_stays_enabled [where sourceType = 0 and SourceTypePipe = 0
        and matcher = "\<lambda>name. name = ''link1''"
        and handler = "\<lparr>appId = ''router1'', LogicalName = ''link1'', enabled = False\<rparr>"
        and calls = "[(0, (\<lambda>name. name = ''link1''), False), (0, (\<lambda>name. True), False)]"]
    by simp
qed

end
